theory Spec2Isabelle
  imports Complex_Main "HOL-Library.Char_ord" "HOL-Library.List_Lexorder"
begin

section \<open>Tables, cells and the pandas operations the scripts call\<close>

text \<open>
  A data frame is a list of rows in table order; the position of a row plays the role
  of its index label. In the cleaning scripts a row is read by column name
  (\<^verbatim>\<open>df["APID"]\<close>), so a raw row is a function from column names to cells.

  The scripts never look inside a cell themselves: they hand it to pandas
  (\<^verbatim>\<open>isna\<close>, \<^verbatim>\<open>astype(str)\<close>, \<^verbatim>\<open>pd.to_numeric(errors="coerce")\<close>,
  \<^verbatim>\<open>pd.to_datetime(errors="coerce")\<close>). These library functions are parameters of the
  model, applied cell by cell, and nothing is assumed about them; the cell type is a type
  variable. \<open>None\<close> stands for NaN / NaT. \<open>of_numeric\<close> and \<open>of_datetime\<close> are the cells
  of a column after it has been overwritten by the converted values, \<open>of_str\<close> the cell
  holding a string.
\<close>

record 'c pandas =
  isna :: "'c \<Rightarrow> bool"
  astype_str :: "'c \<Rightarrow> string"
  to_numeric :: "'c \<Rightarrow> rat option"
  to_datetime :: "'c \<Rightarrow> int option"
  of_numeric :: "rat option \<Rightarrow> 'c"
  of_datetime :: "int option \<Rightarrow> 'c"
  of_str :: "string \<Rightarrow> 'c"

type_synonym 'c raw_row = "string \<Rightarrow> 'c"


text \<open>\<^verbatim>\<open>str.strip()\<close>: removes leading and trailing white space. Strings are byte lists
  here, so the white space is Python's ASCII white space (TAB, LF, VT, FF, CR, FS, GS, RS,
  US and the blank); the white space beyond ASCII that Python also strips (U+0085, U+00A0
  and others) is not modelled. No proof below depends on which characters are stripped.\<close>

definition is_space :: "char \<Rightarrow> bool" where
  "is_space c = ((of_char c :: nat) \<in> {9, 10, 11, 12, 13, 28, 29, 30, 31, 32})"

definition str_strip :: "string \<Rightarrow> string" where
  "str_strip s = rev (dropWhile is_space (rev (dropWhile is_space s)))"

text \<open>\<^verbatim>\<open>Series.duplicated(keep=False)\<close>: marks every element that occurs more than once.\<close>

definition duplicated_keep_False :: "'a list \<Rightarrow> bool list" where
  "duplicated_keep_False ks = map (\<lambda>k. 1 < count_list ks k) ks"

text \<open>\<^verbatim>\<open>df.loc[~mask]\<close>: the rows whose mask entry is False, in table order.\<close>

definition loc_not :: "'a list \<Rightarrow> bool list \<Rightarrow> 'a list" where
  "loc_not df msk = map fst (filter (\<lambda>(r, m). \<not> m) (zip df msk))"

section \<open>The batch cleaner (ap_cleaning.py, main)\<close>

definition ALLOWED_CCY :: "string set" where
  "ALLOWED_CCY = {''USD'', ''EUR'', ''GBP'', ''CAD'', ''AUD'', ''JPY''}"

definition apid_missing :: "'c pandas \<Rightarrow> 'c raw_row \<Rightarrow> bool" where
  "apid_missing L r =
     (isna L (r ''APID'') \<or> str_strip (astype_str L (r ''APID'')) = '''')"

definition amt_invalid :: "'c pandas \<Rightarrow> 'c raw_row \<Rightarrow> bool" where
  "amt_invalid L r =
     (case to_numeric L (r ''Amount'') of None \<Rightarrow> True | Some a \<Rightarrow> a \<le> 0)"

definition inv_invoice :: "'c pandas \<Rightarrow> 'c raw_row \<Rightarrow> bool" where
  "inv_invoice L r = (to_datetime L (r ''InvoiceDate'') = None)"

definition inv_due :: "'c pandas \<Rightarrow> 'c raw_row \<Rightarrow> bool" where
  "inv_due L r = (to_datetime L (r ''DueDate'') = None)"

definition invalid_dates :: "'c pandas \<Rightarrow> 'c raw_row \<Rightarrow> bool" where
  "invalid_dates L r = (inv_invoice L r \<or> inv_due L r)"

text \<open>A comparison with NaT on either side is False.\<close>

definition due_before_invoice :: "'c pandas \<Rightarrow> 'c raw_row \<Rightarrow> bool" where
  "due_before_invoice L r =
     (case (to_datetime L (r ''DueDate''), to_datetime L (r ''InvoiceDate'')) of
        (Some d, Some i) \<Rightarrow> d < i
      | _ \<Rightarrow> False)"

definition ccy_invalid :: "'c pandas \<Rightarrow> 'c raw_row \<Rightarrow> bool" where
  "ccy_invalid L r = (str_strip (astype_str L (r ''Currency'')) \<notin> ALLOWED_CCY)"

text \<open>The composite key. When it is built, \<^verbatim>\<open>InvoiceDate\<close> has already been overwritten
  by its converted values; \<^verbatim>\<open>Amount\<close> is still the raw cell.\<close>

definition compkey :: "'c pandas \<Rightarrow> 'c raw_row \<Rightarrow> string" where
  "compkey L r =
     astype_str L (r ''APID'') @ ''|'' @
     astype_str L (r ''Vendor'') @ ''|'' @
     astype_str L (of_datetime L (to_datetime L (r ''InvoiceDate''))) @ ''|'' @
     astype_str L (r ''Amount'')"

definition is_dup :: "'c pandas \<Rightarrow> 'c raw_row list \<Rightarrow> bool list" where
  "is_dup L df = duplicated_keep_False (map (compkey L) df)"

definition row_invalid :: "'c pandas \<Rightarrow> 'c raw_row \<Rightarrow> bool" where
  "row_invalid L r =
     (apid_missing L r \<or> amt_invalid L r \<or> invalid_dates L r \<or>
      due_before_invoice L r \<or> ccy_invalid L r)"

definition drop_mask :: "'c pandas \<Rightarrow> 'c raw_row list \<Rightarrow> bool list" where
  "drop_mask L df = map (\<lambda>(r, d). row_invalid L r \<or> d) (zip df (is_dup L df))"

definition rows_removed :: "'c pandas \<Rightarrow> 'c raw_row list \<Rightarrow> nat" where
  "rows_removed L df = length (filter (\<lambda>m. m) (drop_mask L df))"

definition df_clean :: "'c pandas \<Rightarrow> 'c raw_row list \<Rightarrow> 'c raw_row list" where
  "df_clean L df = loc_not df (drop_mask L df)"

text \<open>The index labels that survive (\<^verbatim>\<open>df_clean.index\<close>).\<close>

definition df_clean_index :: "'c pandas \<Rightarrow> 'c raw_row list \<Rightarrow> nat list" where
  "df_clean_index L df = loc_not [0 ..< length df] (drop_mask L df)"

text \<open>
  Line 118: before the table is saved, its \<^verbatim>\<open>Amount\<close> column is overwritten by
  \<^verbatim>\<open>pd.to_numeric(df_clean["Amount"], errors="coerce")\<close>. This is the cleaned output
  that \<^verbatim>\<open>safe_save_csv\<close> writes.
\<close>

definition df_clean_saved :: "'c pandas \<Rightarrow> 'c raw_row list \<Rightarrow> 'c raw_row list" where
  "df_clean_saved L df =
     map (\<lambda>r. r(''Amount'' := of_numeric L (to_numeric L (r ''Amount'')))) (df_clean L df)"

text \<open>The four cells of the composite key of a row.\<close>

definition key_cells :: "'c raw_row \<Rightarrow> 'c \<times> 'c \<times> 'c \<times> 'c" where
  "key_cells r = (r ''APID'', r ''Vendor'', r ''InvoiceDate'', r ''Amount'')"

text \<open>
  The \<^verbatim>\<open>duplicates\<close> entry of the summary that the script prints after cleaning (lines
  140 to 145): the key is built again, from the cells of the cleaned table, and the rows
  whose key occurs more than once are counted.
\<close>

definition cleaned_key :: "'c pandas \<Rightarrow> 'c raw_row \<Rightarrow> string" where
  "cleaned_key L r =
     astype_str L (r ''APID'') @ ''|'' @
     astype_str L (r ''Vendor'') @ ''|'' @
     astype_str L (r ''InvoiceDate'') @ ''|'' @
     astype_str L (r ''Amount'')"

definition cleaned_duplicates :: "'c pandas \<Rightarrow> 'c raw_row list \<Rightarrow> nat" where
  "cleaned_duplicates L tbl =
     length (filter (\<lambda>d. d) (duplicated_keep_False (map (cleaned_key L) tbl)))"

text \<open>
  The invariant set of a clean record, as the specification lists it: \<^verbatim>\<open>APID\<close> present
  and not blank, \<^verbatim>\<open>Amount\<close> numeric and positive, both dates parseable with
  \<^verbatim>\<open>DueDate >= InvoiceDate\<close>, and the trimmed \<^verbatim>\<open>Currency\<close> in the allowed set. It is
  compared below with what the drop mask of the source leaves.
\<close>

definition clean_record :: "'c pandas \<Rightarrow> 'c raw_row \<Rightarrow> bool" where
  "clean_record L r =
     (\<not> isna L (r ''APID'') \<and> str_strip (astype_str L (r ''APID'')) \<noteq> '''' \<and>
      (case to_numeric L (r ''Amount'') of None \<Rightarrow> False | Some a \<Rightarrow> 0 < a) \<and>
      (case (to_datetime L (r ''InvoiceDate''), to_datetime L (r ''DueDate'')) of
         (Some i, Some d) \<Rightarrow> i \<le> d
       | _ \<Rightarrow> False) \<and>
      str_strip (astype_str L (r ''Currency'')) \<in> ALLOWED_CCY)"

section \<open>The dashboard's cleaner (app.py, _clean)\<close>





section \<open>Feature derivation (ap_kpis.py and ap_reports.py, _ensure_features)\<close>

text \<open>
  After \<^verbatim>\<open>load_clean_or_raw\<close> the date columns are datetime columns and \<^verbatim>\<open>Amount\<close>
  is numeric. A timestamp is its count of nanoseconds; \<open>None\<close> is NaT / NaN / a missing
  string. The aging labels \<^verbatim>\<open>Current, 0-30, 31-60, 61-90, >90\<close> are the constructors of
  \<open>bucket\<close>, in category order.
\<close>

datatype bucket = Current | Days_0_30 | Days_31_60 | Days_61_90 | Over_90

record invoice =
  Vendor :: "string option"
  Status :: "string option"
  Terms :: "string option"
  Currency :: "string option"
  InvoiceDate :: "int option"
  DueDate :: "int option"
  PaidDate :: "int option"
  Amount :: "rat option"
  IsPaid :: bool
  DaysPastDue :: int
  AgingBucket :: "bucket option"

record frame =
  columns :: "string list"
  rows :: "invoice list"

definition ns_per_day :: int where
  "ns_per_day = 86400000000000"

text \<open>\<^verbatim>\<open>Timestamp.normalize()\<close>: midnight of the same day.\<close>

definition normalize :: "int \<Rightarrow> int" where
  "normalize t = t - t mod ns_per_day"

text \<open>\<^verbatim>\<open>(a - b).dt.days\<close>: the whole days of the difference, rounded down; NaN when
  either side is NaT.\<close>

definition dt_days :: "int option \<Rightarrow> int option \<Rightarrow> int option" where
  "dt_days a b =
     (case (a, b) of (Some x, Some y) \<Rightarrow> Some ((x - y) div ns_per_day) | _ \<Rightarrow> None)"

definition str_of_cell :: "string option \<Rightarrow> string" where
  "str_of_cell c = (case c of None \<Rightarrow> ''nan'' | Some s \<Rightarrow> s)"

definition lower_char :: "char \<Rightarrow> char" where
  "lower_char c =
     (let n = (of_char c :: nat) in if 65 \<le> n \<and> n \<le> 90 then char_of (n + 32) else c)"

definition str_lower :: "string \<Rightarrow> string" where
  "str_lower s = map lower_char s"

datatype bound = Bound int | Infinity

fun bound_less :: "bound \<Rightarrow> int \<Rightarrow> bool" where
  "bound_less (Bound b) x = (b < x)"
| "bound_less Infinity x = False"

fun le_bound :: "int \<Rightarrow> bound \<Rightarrow> bool" where
  "le_bound x (Bound b) = (x \<le> b)"
| "le_bound x Infinity = True"

text \<open>\<^verbatim>\<open>pd.cut(x, bins, labels)\<close> with the default \<^verbatim>\<open>right=True\<close>: the label of the
  interval \<open>(lo, hi]\<close> that holds \<open>x\<close>, NaN when no interval does.\<close>

fun pd_cut :: "bound list \<Rightarrow> 'l list \<Rightarrow> int \<Rightarrow> 'l option" where
  "pd_cut (lo # hi # bs) (l # ls) x =
     (if bound_less lo x \<and> le_bound x hi then Some l else pd_cut (hi # bs) ls x)"
| "pd_cut bs ls x = None"

definition bins :: "bound list" where
  "bins = [Bound (- 1), Bound 0, Bound 30, Bound 60, Bound 90, Infinity]"

definition labels :: "bucket list" where
  "labels = [Current, Days_0_30, Days_31_60, Days_61_90, Over_90]"

definition is_paid :: "string list \<Rightarrow> invoice \<Rightarrow> bool" where
  "is_paid cols r =
     ((False \<or> (''Status'' \<in> set cols \<and> str_lower (str_of_cell (Status r)) = ''paid''))
      \<or> (''PaidDate'' \<in> set cols \<and> PaidDate r \<noteq> None))"

definition fillna0 :: "int option \<Rightarrow> int" where
  "fillna0 x = (case x of None \<Rightarrow> 0 | Some d \<Rightarrow> d)"

definition clip_lower0 :: "int \<Rightarrow> int" where
  "clip_lower0 d = max 0 d"

definition days_past_due :: "int \<Rightarrow> string list \<Rightarrow> bool \<Rightarrow> invoice \<Rightarrow> int" where
  "days_past_due today cols paid r =
     (if ''DueDate'' \<in> set cols
      then (let dpd_today = dt_days (Some today) (DueDate r);
                dpd_paid = (if ''PaidDate'' \<in> set cols then dt_days (PaidDate r) (DueDate r)
                            else None)
            in clip_lower0 (fillna0 (if paid then dpd_paid else dpd_today)))
      else 0)"

definition ensure_features_row :: "int \<Rightarrow> string list \<Rightarrow> invoice \<Rightarrow> invoice" where
  "ensure_features_row today cols r =
     (let paid = is_paid cols r;
          dpd = days_past_due today cols paid r
      in r\<lparr>IsPaid := paid, DaysPastDue := dpd,
            AgingBucket := (if ''AgingBucket'' \<notin> set cols then pd_cut bins labels dpd
                            else AgingBucket r)\<rparr>)"

text \<open>\<open>now\<close> is the clock reading of \<^verbatim>\<open>pd.Timestamp.today()\<close>.\<close>

definition ensure_features :: "int \<Rightarrow> frame \<Rightarrow> frame" where
  "ensure_features now df =
     \<lparr>columns = columns df @
        filter (\<lambda>c. c \<notin> set (columns df)) [''IsPaid'', ''DaysPastDue'', ''AgingBucket''],
      rows = map (ensure_features_row (normalize now) (columns df)) (rows df)\<rparr>"

section \<open>The summary tables (ap_reports.py)\<close>









section \<open>The KPI record (ap_kpis.py, main)\<close>

text \<open>The values a KPI can take: Python's \<^verbatim>\<open>None\<close>, a float (\<open>None\<close> is NaN), an int, a
  string. The record \<^verbatim>\<open>kpis\<close> is a dictionary; a key that is never assigned is absent.\<close>

datatype kpi = PyNone | KFloat "rat option" | KInt int | KStr string

type_synonym kpis = "(string \<times> kpi) list"

definition kpi_get :: "kpis \<Rightarrow> string \<Rightarrow> kpi option" where
  "kpi_get k name = map_of (rev k) name"





















section \<open>Saving the cleaned table (ap_cleaning.py, safe_save_csv)\<close>











section \<open>Finding the input (find_excel, load_clean_or_raw)\<close>






section \<open>Example data\<close>

text \<open>
  An instance of the pandas parameters on which the model is run in the examples: a cell
  is the text typed into the spreadsheet, the empty text is a missing cell, and the
  parsers know the literals the examples use.
\<close>

definition pd_example :: "string pandas" where
  "pd_example =
     \<lparr> isna = (\<lambda>c. c = ''''),
       astype_str = (\<lambda>c. if c = '''' then ''nan'' else c),
       to_numeric = map_of [(''100.5'', 201 / 2), (''250'', 250), (''250.0'', 250), (''0'', 0),
                            (''-5'', - 5)],
       to_datetime = map_of [(''2024-01-01'', 19723), (''2024-01-31'', 19753)],
       of_numeric = (\<lambda>q. if q = Some (201 / 2) then ''100.5'' else if q = Some 250 then ''250.0''
                          else if q = Some 0 then ''0.0'' else if q = Some (- 5) then ''-5.0'' else ''''),
       of_datetime = (\<lambda>d. if d = Some 19723 then ''2024-01-01''
                           else if d = Some 19753 then ''2024-01-31'' else ''''),
       of_str = (\<lambda>s. s) \<rparr>"

definition example_row ::
  "string \<Rightarrow> string \<Rightarrow> string \<Rightarrow> string \<Rightarrow> string \<Rightarrow> string \<Rightarrow> string raw_row" where
  "example_row apid vendor invoiced dued amt ccy =
     (\<lambda>c. if c = ''APID'' then apid else if c = ''Vendor'' then vendor
          else if c = ''InvoiceDate'' then invoiced else if c = ''DueDate'' then dued
          else if c = ''Amount'' then amt else if c = ''Currency'' then ccy else [])"

definition example_raw :: "string raw_row list" where
  "example_raw =
     [example_row ''AP-1'' ''Acme'' ''2024-01-01'' ''2024-01-31'' ''100.5'' '' USD'',
      example_row ''AP-2'' ''Bolt'' ''2024-01-01'' ''2024-01-31'' ''250'' ''EUR'',
      example_row ''AP-2'' ''Bolt'' ''2024-01-01'' ''2024-01-31'' ''250'' ''EUR'',
      example_row ''AP-3'' ''Acme'' ''2024-01-01'' ''2024-01-31'' ''0'' ''USD'',
      example_row ''AP-4'' ''Acme'' ''2024-01-31'' ''2024-01-01'' ''100.5'' ''USD'',
      example_row [] ''Acme'' ''2024-01-01'' ''2024-01-31'' ''100.5'' ''USD'']"

text \<open>A loaded frame of two invoices, one open and one paid three days early, and a
  clock reading on 2024-03-01 at ten in the morning (day 19783 since 1970-01-01).\<close>

definition example_frame :: frame where
  "example_frame =
     \<lparr>columns = [''Vendor'', ''Status'', ''InvoiceDate'', ''DueDate'', ''PaidDate'', ''Amount''],
      rows = [\<lparr>Vendor = Some ''Acme'', Status = Some ''Open'', Terms = None, Currency = None,
               InvoiceDate = Some (19723 * ns_per_day), DueDate = Some (19753 * ns_per_day),
               PaidDate = None, Amount = Some (201 / 2),
               IsPaid = False, DaysPastDue = 0, AgingBucket = None\<rparr>,
              \<lparr>Vendor = Some ''Bolt'', Status = Some ''PAID'', Terms = None, Currency = None,
               InvoiceDate = Some (19723 * ns_per_day), DueDate = Some (19753 * ns_per_day),
               PaidDate = Some (19750 * ns_per_day), Amount = Some 250,
               IsPaid = False, DaysPastDue = 0, AgingBucket = None\<rparr>]\<rparr>"

definition example_now :: int where
  "example_now = 19783 * ns_per_day + 36000000000000"











text \<open>A raw table that holds one invoice twice, the amount typed once as \<^verbatim>\<open>250\<close> and
  once as \<^verbatim>\<open>250.0\<close>.\<close>

definition example_mixed :: "string raw_row list" where
  "example_mixed =
     [example_row ''AP-2'' ''Bolt'' ''2024-01-01'' ''2024-01-31'' ''250'' ''EUR'',
      example_row ''AP-2'' ''Bolt'' ''2024-01-01'' ''2024-01-31'' ''250.0'' ''EUR'']"


section \<open>Properties of the batch cleaner\<close>

lemma count_list_dup:
  "i < j \<Longrightarrow> j < length ks \<Longrightarrow> ks ! i = ks ! j \<Longrightarrow> 1 < count_list ks (ks ! i)"
proof (induction ks arbitrary: i j)
  case Nil
  then show ?case by simp
next
  case (Cons a ks)
  show ?case
  proof (cases i)
    case 0
    with Cons.prems have "a \<in> set ks" by (cases j) auto
    then have "0 < count_list ks a" using count_list_0_iff [of ks a] by simp
    with 0 show ?thesis by simp
  next
    case (Suc i')
    with Cons.prems obtain j' where j: "j = Suc j'" by (cases j) auto
    with Suc Cons.prems have "1 < count_list ks (ks ! i')"
      by (intro Cons.IH [of i' j']) auto
    with Suc show ?thesis by simp
  qed
qed

lemma count_list_distinct: "distinct ks \<Longrightarrow> k \<in> set ks \<Longrightarrow> count_list ks k = 1"
  by (induction ks) auto

lemma loc_not_eq:
  assumes len: "length msk = length df"
  shows "loc_not df msk = map ((!) df) (filter (\<lambda>i. \<not> msk ! i) [0 ..< length df])"
proof -
  have z: "zip df msk = map (\<lambda>i. (df ! i, msk ! i)) [0 ..< length df]"
    using len by (intro nth_equalityI) auto
  show ?thesis
    unfolding loc_not_def z by (simp add: filter_map comp_def)
qed

lemma loc_not_all_False: "loc_not df (replicate (length df) False) = df"
  by (simp add: loc_not_def zip_replicate2 filter_map comp_def)

lemma length_is_dup: "length (is_dup L df) = length df"
  by (simp add: is_dup_def duplicated_keep_False_def)

lemma length_drop_mask: "length (drop_mask L df) = length df"
  by (simp add: drop_mask_def length_is_dup)

lemma drop_mask_nth:
  "i < length df \<Longrightarrow>
   drop_mask L df ! i =
     (row_invalid L (df ! i) \<or> 1 < count_list (map (compkey L) df) (compkey L (df ! i)))"
  by (simp add: drop_mask_def length_is_dup is_dup_def duplicated_keep_False_def)

lemma df_clean_index_eq:
  "df_clean_index L df = filter (\<lambda>i. \<not> drop_mask L df ! i) [0 ..< length df]"
proof -
  have "map ((!) [0 ..< length df]) (filter (\<lambda>i. \<not> drop_mask L df ! i) [0 ..< length df])
        = filter (\<lambda>i. \<not> drop_mask L df ! i) [0 ..< length df]"
    by (rule map_idI) simp
  then show ?thesis
    using loc_not_eq [of "drop_mask L df" "[0 ..< length df]"]
    by (simp add: df_clean_index_def length_drop_mask)
qed

lemma df_clean_eq: "df_clean L df = map ((!) df) (df_clean_index L df)"
  by (simp add: df_clean_def df_clean_index_eq loc_not_eq length_drop_mask)

lemma df_clean_index_iff:
  "i \<in> set (df_clean_index L df) \<longleftrightarrow>
     i < length df \<and> \<not> row_invalid L (df ! i) \<and>
     \<not> 1 < count_list (map (compkey L) df) (compkey L (df ! i))"
  by (auto simp: df_clean_index_eq drop_mask_nth)

lemma distinct_df_clean_index: "distinct (df_clean_index L df)"
  by (simp add: df_clean_index_eq)

lemma compkey_inj_on_clean:
  "inj_on (\<lambda>i. compkey L (df ! i)) (set (df_clean_index L df))"
proof (rule inj_onI)
  fix i j
  assume i: "i \<in> set (df_clean_index L df)" and j: "j \<in> set (df_clean_index L df)"
    and eq: "compkey L (df ! i) = compkey L (df ! j)"
  let ?ks = "map (compkey L) df"
  show "i = j"
  proof (rule ccontr)
    assume ne: "i \<noteq> j"
    from i j have li: "i < length ?ks" and lj: "j < length ?ks"
      by (simp_all add: df_clean_index_iff)
    from eq li lj have e: "?ks ! i = ?ks ! j" by simp
    have "1 < count_list ?ks (?ks ! i)"
    proof (cases "i < j")
      case True
      then show ?thesis using count_list_dup [OF True lj e] by simp
    next
      case False
      with ne have "j < i" by simp
      then show ?thesis using count_list_dup [OF _ li e [symmetric]] e by simp
    qed
    with i li show False by (simp add: df_clean_index_iff)
  qed
qed

lemma distinct_compkey_df_clean: "distinct (map (compkey L) (df_clean L df))"
  by (simp add: df_clean_eq distinct_map distinct_df_clean_index comp_def compkey_inj_on_clean)

lemma clean_record_iff: "clean_record L r \<longleftrightarrow> \<not> row_invalid L r"
  by (auto simp: clean_record_def row_invalid_def apid_missing_def amt_invalid_def
      invalid_dates_def inv_invoice_def inv_due_def due_before_invoice_def ccy_invalid_def
      split: option.splits)

lemma df_clean_rows_valid: "r \<in> set (df_clean L df) \<Longrightarrow> clean_record L r"
  by (auto simp: df_clean_eq df_clean_index_iff clean_record_iff)

text \<open>Rows that agree on the four key columns have the same key text.\<close>

lemma compkey_cong:
  "r ''APID'' = r' ''APID'' \<Longrightarrow> r ''Vendor'' = r' ''Vendor'' \<Longrightarrow>
   r ''InvoiceDate'' = r' ''InvoiceDate'' \<Longrightarrow> r ''Amount'' = r' ''Amount'' \<Longrightarrow>
   compkey L r = compkey L r'"
  by (simp add: compkey_def)

lemma distinct_map_finer:
  assumes d: "distinct (map f xs)" and fg: "\<And>x y. g x = g y \<Longrightarrow> f x = f y"
  shows "distinct (map g xs)"
  using d
proof (induction xs)
  case Nil
  then show ?case by simp
next
  case (Cons a xs)
  from Cons.prems have fa: "f a \<notin> f ` set xs" and dxs: "distinct (map f xs)"
    by simp_all
  have "g a \<notin> g ` set xs"
  proof
    assume "g a \<in> g ` set xs"
    then obtain y where y: "y \<in> set xs" and gy: "g a = g y"
      by (rule imageE)
    from gy have "f a = f y" by (rule fg)
    moreover from y have "f y \<in> f ` set xs" by (rule imageI)
    ultimately have "f a \<in> f ` set xs" by (simp only:)
    with fa show False ..
  qed
  moreover from dxs have "distinct (map g xs)" by (rule Cons.IH)
  ultimately show ?case by simp
qed

lemma distinct_key_cells_df_clean:
  "distinct (map (\<lambda>r. (r ''APID'', r ''Vendor'', r ''InvoiceDate'', r ''Amount''))
     (df_clean L df))"
  by (rule distinct_map_finer [OF distinct_compkey_df_clean]) (simp add: compkey_def)

lemma drop_mask_clean_table:
  assumes valid: "\<forall>r \<in> set df. clean_record L r"
    and keys: "distinct (map (compkey L) df)"
  shows "drop_mask L df = replicate (length df) False"
proof (intro nth_equalityI)
  show "length (drop_mask L df) = length (replicate (length df) False)"
    by (simp add: length_drop_mask)
next
  fix i
  assume "i < length (drop_mask L df)"
  then have i: "i < length df" by (simp add: length_drop_mask)
  then have "count_list (map (compkey L) df) (compkey L (df ! i)) = 1"
    by (intro count_list_distinct [OF keys]) simp
  moreover from valid i have "\<not> row_invalid L (df ! i)"
    by (simp add: clean_record_iff [symmetric])
  ultimately show "drop_mask L df ! i = replicate (length df) False ! i"
    using i by (simp add: drop_mask_nth)
qed

text \<open>The saved table: each row is a row that the drop mask left, with its \<^verbatim>\<open>Amount\<close>
  cell overwritten by the positive number it parses to.\<close>

lemma df_clean_saved_rows:
  assumes "r \<in> set (df_clean_saved L df)"
  shows "\<exists>r0 a. r0 \<in> set (df_clean L df) \<and> clean_record L r0 \<and>
           to_numeric L (r0 ''Amount'') = Some a \<and> 0 < a \<and>
           r = r0(''Amount'' := of_numeric L (Some a))"
proof -
  from assms obtain r0 where r0: "r0 \<in> set (df_clean L df)"
    and r: "r = r0(''Amount'' := of_numeric L (to_numeric L (r0 ''Amount'')))"
    by (auto simp: df_clean_saved_def)
  from r0 have c: "clean_record L r0" by (rule df_clean_rows_valid)
  then obtain a where a: "to_numeric L (r0 ''Amount'') = Some a" "0 < a"
    by (auto simp: clean_record_def split: option.splits)
  with r0 c r show ?thesis by auto
qed

lemma example_row_cols:
  "example_row a v i d m c ''APID'' = a"
  "example_row a v i d m c ''Vendor'' = v"
  "example_row a v i d m c ''InvoiceDate'' = i"
  "example_row a v i d m c ''DueDate'' = d"
  "example_row a v i d m c ''Amount'' = m"
  "example_row a v i d m c ''Currency'' = c"
  "example_row a v i d m c ''PaidDate'' = []"
  by (simp_all add: example_row_def)

lemma pd_example_fields:
  "isna pd_example c = (c = [])"
  "astype_str pd_example c = (if c = [] then ''nan'' else c)"
  "to_numeric pd_example ''250'' = Some 250"
  "to_numeric pd_example ''250.0'' = Some 250"
  "to_datetime pd_example ''2024-01-01'' = Some 19723"
  "to_datetime pd_example ''2024-01-31'' = Some 19753"
  "to_datetime pd_example [] = None"
  "of_numeric pd_example (Some 250) = ''250.0''"
  "of_datetime pd_example (Some 19723) = ''2024-01-01''"
  "of_datetime pd_example (Some 19753) = ''2024-01-31''"
  "of_datetime pd_example None = []"
  "of_str pd_example s = s"
  by (simp_all add: pd_example_def)

lemma strip_examples:
  "str_strip ''AP-2'' = ''AP-2''" "str_strip ''EUR'' = ''EUR''"
  by (simp_all add: str_strip_def is_space_def)

lemma eur: "''EUR'' \<in> ALLOWED_CCY"
  by (simp add: ALLOWED_CCY_def)

lemmas batch_defs =
  loc_not_def drop_mask_def is_dup_def duplicated_keep_False_def row_invalid_def
  apid_missing_def amt_invalid_def invalid_dates_def inv_invoice_def inv_due_def
  due_before_invoice_def ccy_invalid_def compkey_def

lemma example_mixed_index: "df_clean_index pd_example example_mixed = [0, 1]"
  by (simp add: df_clean_index_def batch_defs example_mixed_def example_row_cols
      pd_example_fields strip_examples eur)

lemma example_mixed_saved:
  "df_clean_saved pd_example example_mixed =
     [(example_row ''AP-2'' ''Bolt'' ''2024-01-01'' ''2024-01-31'' ''250'' ''EUR'')
        (''Amount'' := ''250.0''),
      (example_row ''AP-2'' ''Bolt'' ''2024-01-01'' ''2024-01-31'' ''250.0'' ''EUR'')
        (''Amount'' := ''250.0'')]"
  by (simp add: df_clean_saved_def df_clean_def batch_defs example_mixed_def example_row_cols
      pd_example_fields strip_examples eur)

text \<open>
  Claim C1. The rows that the drop mask leaves pass every cleaning predicate
  (\<open>df_clean_rows_valid\<close>) and have pairwise different key texts
  (\<open>distinct_compkey_df_clean\<close>); but the key text is built from the raw \<^verbatim>\<open>Amount\<close>
  cell, and the amount is coerced to a number only afterwards. On a table that holds one
  invoice twice, the amount typed once as \<^verbatim>\<open>250\<close> and once as \<^verbatim>\<open>250.0\<close>, both rows
  survive, the two rows of the saved table have the same four key cells, and the script's
  own count of duplicates after cleaning is 2: the cleaned output does not satisfy the
  claim's last predicate.
\<close>

theorem cleaned_output_shares_key:
  "df_clean_index pd_example example_mixed = [0, 1] \<and>
   length (df_clean_saved pd_example example_mixed) = 2 \<and>
   key_cells (df_clean_saved pd_example example_mixed ! 0)
     = key_cells (df_clean_saved pd_example example_mixed ! 1) \<and>
   key_cells (df_clean_saved pd_example example_mixed ! 0)
     = (''AP-2'', ''Bolt'', ''2024-01-01'', ''250.0'') \<and>
   cleaned_duplicates pd_example (df_clean_saved pd_example example_mixed) = 2"
  by (simp only: example_mixed_index example_mixed_saved)
    (simp add: key_cells_def example_row_cols cleaned_duplicates_def cleaned_key_def
      duplicated_keep_False_def pd_example_fields)

lemma example_raw_cleaned:
  "df_clean pd_example example_raw =
     [example_row ''AP-1'' ''Acme'' ''2024-01-01'' ''2024-01-31'' ''100.5'' '' USD'']"
  by (simp add: df_clean_def loc_not_def drop_mask_def is_dup_def duplicated_keep_False_def
      example_raw_def row_invalid_def apid_missing_def amt_invalid_def invalid_dates_def
      inv_invoice_def inv_due_def due_before_invoice_def ccy_invalid_def compkey_def
      pd_example_def example_row_def str_strip_def is_space_def ALLOWED_CCY_def)



text \<open>
  Claim C5. On a table whose rows all pass the cleaning predicates and whose key texts
  are pairwise different the drop mask marks no row (\<open>drop_mask_clean_table\<close>). The
  output of a cleaning run need not be such a table: the saved table of the example above
  holds the same key twice, so cleaning it again removes both of its rows and returns the
  empty table.
\<close>

theorem recleaning_cleaned_output_drops_rows:
  "length (df_clean_saved pd_example example_mixed) = 2 \<and>
   drop_mask pd_example (df_clean_saved pd_example example_mixed) = [True, True] \<and>
   rows_removed pd_example (df_clean_saved pd_example example_mixed) = 2 \<and>
   df_clean_saved pd_example (df_clean_saved pd_example example_mixed) = []"
  by (simp only: example_mixed_saved)
    (simp add: df_clean_saved_def df_clean_def rows_removed_def batch_defs
      example_row_cols pd_example_fields strip_examples eur)

section \<open>Properties of the feature derivation\<close>

lemma rows_ensure_features:
  "rows (ensure_features now df) =
     map (ensure_features_row (normalize now) (columns df)) (rows df)"
  by (simp add: ensure_features_def)

lemma DaysPastDue_row:
  "DaysPastDue (ensure_features_row today cols r) =
     days_past_due today cols (is_paid cols r) r"
  by (simp add: ensure_features_row_def Let_def)

lemma IsPaid_row: "IsPaid (ensure_features_row today cols r) = is_paid cols r"
  by (simp add: ensure_features_row_def Let_def)

lemma AgingBucket_row:
  "AgingBucket (ensure_features_row today cols r) =
     (if ''AgingBucket'' \<notin> set cols
      then pd_cut bins labels (DaysPastDue (ensure_features_row today cols r))
      else AgingBucket r)"
  by (simp add: ensure_features_row_def Let_def)

lemma days_past_due_nonneg: "0 \<le> days_past_due today cols paid r"
  by (simp add: days_past_due_def clip_lower0_def Let_def)

lemma pd_cut_bins:
  "pd_cut bins labels d =
     (if d \<le> - 1 then None
      else if d \<le> 0 then Some Current
      else if d \<le> 30 then Some Days_0_30
      else if d \<le> 60 then Some Days_31_60
      else if d \<le> 90 then Some Days_61_90
      else Some Over_90)"
  by (simp add: bins_def labels_def)

text \<open>
  Claim C3. After feature derivation \<^verbatim>\<open>DaysPastDue\<close> is never negative. For a paid row
  it is the whole days of \<^verbatim>\<open>PaidDate - DueDate\<close>, clipped at 0; for an open row it is the
  whole days of \<^verbatim>\<open>today - DueDate\<close>, clipped at 0; and it is 0 when a date it needs is
  missing (no \<^verbatim>\<open>DueDate\<close> column or value, or, for a paid row, no \<^verbatim>\<open>PaidDate\<close> column or
  value). Row \<open>i\<close> of the result is derived from row \<open>i\<close> of the input.
\<close>

theorem days_past_due_clipped:
  "(\<forall>r' \<in> set (rows (ensure_features now df)). 0 \<le> DaysPastDue r') \<and>
   (\<forall>i < length (rows df).
      let r = rows df ! i;
          r' = rows (ensure_features now df) ! i;
          today = normalize now;
          has_due = (''DueDate'' \<in> set (columns df));
          has_paid = (''PaidDate'' \<in> set (columns df))
      in (\<forall>p d. IsPaid r' \<and> has_due \<and> has_paid \<and> PaidDate r = Some p \<and> DueDate r = Some d
              \<longrightarrow> DaysPastDue r' = max 0 ((p - d) div ns_per_day)) \<and>
         (\<forall>d. \<not> IsPaid r' \<and> has_due \<and> DueDate r = Some d
              \<longrightarrow> DaysPastDue r' = max 0 ((today - d) div ns_per_day)) \<and>
         (\<not> has_due \<or> DueDate r = None \<or> (IsPaid r' \<and> (\<not> has_paid \<or> PaidDate r = None))
              \<longrightarrow> DaysPastDue r' = 0))"
proof (intro conjI ballI allI impI)
  fix r'
  assume "r' \<in> set (rows (ensure_features now df))"
  then show "0 \<le> DaysPastDue r'"
    by (auto simp: rows_ensure_features DaysPastDue_row days_past_due_nonneg)
next
  fix i
  assume i: "i < length (rows df)"
  then have r': "rows (ensure_features now df) ! i =
      ensure_features_row (normalize now) (columns df) (rows df ! i)"
    by (simp add: rows_ensure_features)
  show "let r = rows df ! i;
          r' = rows (ensure_features now df) ! i;
          today = normalize now;
          has_due = (''DueDate'' \<in> set (columns df));
          has_paid = (''PaidDate'' \<in> set (columns df))
      in (\<forall>p d. IsPaid r' \<and> has_due \<and> has_paid \<and> PaidDate r = Some p \<and> DueDate r = Some d
              \<longrightarrow> DaysPastDue r' = max 0 ((p - d) div ns_per_day)) \<and>
         (\<forall>d. \<not> IsPaid r' \<and> has_due \<and> DueDate r = Some d
              \<longrightarrow> DaysPastDue r' = max 0 ((today - d) div ns_per_day)) \<and>
         (\<not> has_due \<or> DueDate r = None \<or> (IsPaid r' \<and> (\<not> has_paid \<or> PaidDate r = None))
              \<longrightarrow> DaysPastDue r' = 0)"
    unfolding Let_def r' DaysPastDue_row IsPaid_row
    by (auto simp: days_past_due_def dt_days_def fillna0_def clip_lower0_def
        split: option.splits)
qed

lemma example_frame_features:
  "rows (ensure_features example_now example_frame) =
     [(rows example_frame ! 0)\<lparr>IsPaid := False, DaysPastDue := 30, AgingBucket := Some Days_0_30\<rparr>,
      (rows example_frame ! 1)\<lparr>IsPaid := True, DaysPastDue := 0, AgingBucket := Some Current\<rparr>]"
  by (simp add: ensure_features_def ensure_features_row_def example_frame_def example_now_def
      normalize_def ns_per_day_def is_paid_def days_past_due_def dt_days_def fillna0_def
      clip_lower0_def str_lower_def lower_char_def str_of_cell_def bins_def labels_def)

theorem days_past_due_clipped_witness:
  "(0::nat) < length (rows example_frame) \<and>
   \<not> IsPaid (rows (ensure_features example_now example_frame) ! 0) \<and>
   ''DueDate'' \<in> set (columns example_frame) \<and>
   DueDate (rows example_frame ! 0) = Some (19753 * ns_per_day) \<and>
   DaysPastDue (rows (ensure_features example_now example_frame) ! 0)
     = max 0 ((normalize example_now - 19753 * ns_per_day) div ns_per_day) \<and>
   max 0 ((normalize example_now - 19753 * ns_per_day) div ns_per_day) = 30"
proof -
  have l: "(0::nat) < length (rows example_frame)"
    by (simp add: example_frame_def)
  have o: "\<not> IsPaid (rows (ensure_features example_now example_frame) ! 0)"
    by (simp add: example_frame_features)
  have c: "''DueDate'' \<in> set (columns example_frame)"
    by (simp add: example_frame_def)
  have d: "DueDate (rows example_frame ! 0) = Some (19753 * ns_per_day)"
    by (simp add: example_frame_def)
  have n: "max 0 ((normalize example_now - 19753 * ns_per_day) div ns_per_day) = 30"
    by (simp add: example_now_def normalize_def ns_per_day_def)
  from days_past_due_clipped [of example_now example_frame]
  have "\<forall>i < length (rows example_frame).
      \<forall>d. \<not> IsPaid (rows (ensure_features example_now example_frame) ! i) \<and>
          ''DueDate'' \<in> set (columns example_frame) \<and> DueDate (rows example_frame ! i) = Some d
          \<longrightarrow> DaysPastDue (rows (ensure_features example_now example_frame) ! i)
              = max 0 ((normalize example_now - d) div ns_per_day)"
    unfolding Let_def by blast
  with l o c d have "DaysPastDue (rows (ensure_features example_now example_frame) ! 0)
      = max 0 ((normalize example_now - 19753 * ns_per_day) div ns_per_day)"
    by blast
  with l o c d n show ?thesis by blast
qed

text \<open>
  Claim C4. When the frame has no \<^verbatim>\<open>AgingBucket\<close> column, the bucket of every row is a
  function of its \<^verbatim>\<open>DaysPastDue\<close> alone: the bins \<open>(-1, 0]\<close>, \<open>(0, 30]\<close>, \<open>(30, 60]\<close>,
  \<open>(60, 90]\<close>, \<open>(90, \<infinity>)\<close> with the labels Current, 0-30, 31-60, 61-90 and >90, so that
  0 is Current, 30 is 0-30, 60 is 31-60, 90 is 61-90 and 91 or more is >90. When the
  column is already there it is kept as it is.
\<close>

theorem aging_bucket_of_days_past_due:
  "(''AgingBucket'' \<notin> set (columns df) \<longrightarrow>
      (\<forall>r' \<in> set (rows (ensure_features now df)).
         AgingBucket r' = pd_cut bins labels (DaysPastDue r'))) \<and>
   (''AgingBucket'' \<in> set (columns df) \<longrightarrow>
      map AgingBucket (rows (ensure_features now df)) = map AgingBucket (rows df)) \<and>
   pd_cut bins labels 0 = Some Current \<and>
   pd_cut bins labels 30 = Some Days_0_30 \<and>
   pd_cut bins labels 60 = Some Days_31_60 \<and>
   pd_cut bins labels 90 = Some Days_61_90 \<and>
   (\<forall>d \<ge> 91. pd_cut bins labels d = Some Over_90) \<and>
   (\<forall>d. pd_cut bins labels d =
      (if d \<le> - 1 then None
       else if d \<le> 0 then Some Current
       else if d \<le> 30 then Some Days_0_30
       else if d \<le> 60 then Some Days_31_60
       else if d \<le> 90 then Some Days_61_90
       else Some Over_90))"
proof (intro conjI impI ballI allI)
  fix r'
  assume "''AgingBucket'' \<notin> set (columns df)"
    and "r' \<in> set (rows (ensure_features now df))"
  then show "AgingBucket r' = pd_cut bins labels (DaysPastDue r')"
    by (auto simp: rows_ensure_features AgingBucket_row)
next
  assume "''AgingBucket'' \<in> set (columns df)"
  then show "map AgingBucket (rows (ensure_features now df)) = map AgingBucket (rows df)"
    by (simp add: rows_ensure_features AgingBucket_row comp_def)
qed (simp_all add: pd_cut_bins)

theorem aging_bucket_of_days_past_due_witness:
  "''AgingBucket'' \<notin> set (columns example_frame) \<and>
   (rows example_frame ! 0)\<lparr>IsPaid := False, DaysPastDue := 30, AgingBucket := Some Days_0_30\<rparr>
     \<in> set (rows (ensure_features example_now example_frame)) \<and>
   pd_cut bins labels 30 = Some Days_0_30 \<and>
   ''AgingBucket'' \<in> set (columns (example_frame\<lparr>columns := [''AgingBucket'']\<rparr>)) \<and>
   map AgingBucket (rows (ensure_features example_now (example_frame\<lparr>columns := [''AgingBucket'']\<rparr>)))
     = [None, None] \<and>
   (91::int) \<le> 400 \<and> pd_cut bins labels 400 = Some Over_90"
proof -
  have a: "''AgingBucket'' \<notin> set (columns example_frame)"
    by (simp add: example_frame_def)
  have m: "(rows example_frame ! 0)\<lparr>IsPaid := False, DaysPastDue := 30, AgingBucket := Some Days_0_30\<rparr>
     \<in> set (rows (ensure_features example_now example_frame))"
    by (simp add: example_frame_features)
  have b: "''AgingBucket'' \<in> set (columns (example_frame\<lparr>columns := [''AgingBucket'']\<rparr>))"
    by simp
  have k: "map AgingBucket (rows (example_frame\<lparr>columns := [''AgingBucket'']\<rparr>)) = [None, None]"
    by (simp add: example_frame_def)
  have g: "(91::int) \<le> 400" by simp
  note t1 = aging_bucket_of_days_past_due [of example_frame example_now]
  note t2 = aging_bucket_of_days_past_due [of "example_frame\<lparr>columns := [''AgingBucket'']\<rparr>" example_now]
  let ?r = "(rows example_frame ! 0)\<lparr>IsPaid := False, DaysPastDue := 30,
      AgingBucket := Some Days_0_30\<rparr>"
  from t1 a m have "AgingBucket ?r = pd_cut bins labels (DaysPastDue ?r)"
    by blast
  then have c30: "pd_cut bins labels 30 = Some Days_0_30" by simp
  from t2 b k have kept: "map AgingBucket (rows (ensure_features example_now
      (example_frame\<lparr>columns := [''AgingBucket'']\<rparr>))) = [None, None]"
    by simp
  from t1 g have c400: "pd_cut bins labels 400 = Some Over_90" by blast
  from a m c30 b kept g c400 show ?thesis by blast
qed

section \<open>Properties of the summary tables\<close>























section \<open>Properties of the KPI record\<close>


lemma kpi_get_Nil: "kpi_get [] n = None"
  by (simp add: kpi_get_def)































section \<open>Properties of the loader\<close>












section \<open>Properties of the safe save\<close>












section \<open>The dashboard's cleaner against the batch cleaner\<close>













end
